theory Spec2Isabelle
  imports Main
begin

section \<open>Data model\<close>

text \<open>
  The script \<^verbatim>\<open>main.py\<close> reads a worksheet as rows of strings, builds a pandas table,
  coerces the score columns to numbers, averages them and compares one student with the
  class average.

  A Python \<^verbatim>\<open>str\<close> is a sequence of Unicode code points, modelled as a list of
  naturals. The three identity columns are the Korean headers of the source, written by
  their code points.
\<close>

type_synonym pystr = "nat list"

definition col_number :: pystr where
  "col_number = [48264, 54840]"

definition col_name :: pystr where
  "col_name = [51060, 47492]"

definition col_gender :: pystr where
  "col_gender = [49457, 48324]"

definition expected_columns :: "pystr list" where
  "expected_columns = [col_number, col_name, col_gender]"

text \<open>
  A cell of a table after loading is a string, a number, or the missing marker (pandas'
  \<^verbatim>\<open>None\<close>/\<^verbatim>\<open>NaN\<close>). The numeric type \<open>'n\<close> stands for the 64-bit floats of
  the library and stays abstract: nothing below computes with it.
\<close>

datatype 'n cell = Str pystr | Num 'n | NA

datatype py_error = IndexError | KeyError | ValueError | AttributeError | TypeError

text \<open>A table: the column labels and the rows, every row as wide as the label list.\<close>

record 'c frame =
  columns :: "pystr list"
  rows :: "'c list list"

definition empty_frame :: "'c frame" where
  "empty_frame = \<lparr>columns = [], rows = []\<rparr>"

definition rectangular :: "'c frame \<Rightarrow> bool" where
  "rectangular df = list_all (\<lambda>r. length r = length (columns df)) (rows df)"

section \<open>Data Loader\<close>

text \<open>
  \<^verbatim>\<open>pd.DataFrame(data[1:], columns=data[0])\<close> on a list of lists: the rows are laid out in
  an array as wide as the longest row, shorter rows padded with \<^verbatim>\<open>None\<close>; the
  constructor raises \<^verbatim>\<open>ValueError\<close> when that width differs from the number of labels.
  With no data row at all the table has the labels and no row.
\<close>

definition widest :: "'a list list \<Rightarrow> nat" where
  "widest body = foldr (\<lambda>r m. max (length r) m) body 0"

definition pad_row :: "nat \<Rightarrow> pystr list \<Rightarrow> pystr option list" where
  "pad_row w r = map Some r @ replicate (w - length r) None"

definition DataFrame :: "pystr list list \<Rightarrow> pystr list \<Rightarrow> py_error + pystr option frame" where
  "DataFrame body header =
     (if body = [] then Inr \<lparr>columns = header, rows = []\<rparr>
      else if widest body \<noteq> length header then Inl ValueError
      else Inr \<lparr>columns = header, rows = map (pad_row (length header)) body\<rparr>)"

text \<open>
  \<^verbatim>\<open>df.dropna(how="all")\<close> removes the rows whose cells are all missing markers. A string,
  the empty string included, is not a missing marker.
\<close>

definition dropna_all :: "pystr option frame \<Rightarrow> pystr option frame" where
  "dropna_all df = df\<lparr>rows := filter (\<lambda>r. \<not> list_all (\<lambda>c. c = None) r) (rows df)\<rparr>"

text \<open>
  \<^verbatim>\<open>astype(str)\<close> leaves a string as it is and turns \<^verbatim>\<open>None\<close> into the text
  \<^verbatim>\<open>None\<close>. Encoding to UTF-8 with \<^verbatim>\<open>errors='ignore'\<close> and decoding again drops the
  surrogate code points, the only ones UTF-8 cannot encode.
\<close>

definition astype_str :: "pystr option \<Rightarrow> pystr" where
  "astype_str c = (case c of None \<Rightarrow> [78, 111, 110, 101] | Some s \<Rightarrow> s)"

definition surrogate :: "nat \<Rightarrow> bool" where
  "surrogate c = (55296 \<le> c \<and> c \<le> 57343)"

definition utf8_roundtrip :: "pystr \<Rightarrow> pystr" where
  "utf8_roundtrip s = filter (\<lambda>c. \<not> surrogate c) s"

definition sanitize_cell :: "pystr option \<Rightarrow> 'n cell" where
  "sanitize_cell c = Str (utf8_roundtrip (astype_str c))"

text \<open>
  \<^verbatim>\<open>load_data\<close>. The remote sheet is a function from worksheet titles to the values
  \<^verbatim>\<open>get_all_values()\<close> returns, \<open>None\<close> when the request raises. Every exception inside
  the \<^verbatim>\<open>try\<close> block ends in \<^verbatim>\<open>return pd.DataFrame()\<close>: a failed request, \<^verbatim>\<open>data[0]\<close>
  on an empty list, the constructor's \<^verbatim>\<open>ValueError\<close>, and \<^verbatim>\<open>df[col].dtype\<close> when a label
  occurs twice (\<^verbatim>\<open>df[col]\<close> is then a table, which has no \<^verbatim>\<open>dtype\<close>). All columns built
  from strings have dtype \<^verbatim>\<open>object\<close>, so the loop over the columns rewrites every cell.
\<close>

type_synonym remote = "pystr \<Rightarrow> pystr list list option"

definition load_data :: "remote \<Rightarrow> pystr \<Rightarrow> 'n cell frame" where
  "load_data sheet worksheet_name =
     (case sheet worksheet_name of
        None \<Rightarrow> empty_frame
      | Some [] \<Rightarrow> empty_frame
      | Some (header # body) \<Rightarrow>
          (case DataFrame body header of
             Inl e \<Rightarrow> empty_frame
           | Inr df0 \<Rightarrow>
               let df = dropna_all df0 in
               if \<not> distinct (columns df) then empty_frame
               else \<lparr>columns = columns df, rows = map (map sanitize_cell) (rows df)\<rparr>))"

section \<open>Column access\<close>

text \<open>
  \<^verbatim>\<open>df[col]\<close> raises \<^verbatim>\<open>KeyError\<close> for an unknown label, is a column (a Series) when the
  label occurs once, and a table when it occurs more than once.
\<close>

fun positions_from :: "nat \<Rightarrow> 'a \<Rightarrow> 'a list \<Rightarrow> nat list" where
  "positions_from n x [] = []"
| "positions_from n x (y # ys) =
     (if x = y then n # positions_from (Suc n) x ys else positions_from (Suc n) x ys)"

definition column_at :: "'c frame \<Rightarrow> nat \<Rightarrow> 'c list" where
  "column_at df i = map (\<lambda>r. r ! i) (rows df)"

datatype 'c selection = Series "'c list" | SubTable

definition getitem :: "'c frame \<Rightarrow> pystr \<Rightarrow> py_error + 'c selection" where
  "getitem df col =
     (case positions_from 0 col (columns df) of
        [] \<Rightarrow> Inl KeyError
      | [i] \<Rightarrow> Inr (Series (column_at df i))
      | i # j # js \<Rightarrow> Inr SubTable)"

text \<open>
  \<^verbatim>\<open>df[col] = values\<close>, reached in the script only after \<^verbatim>\<open>df[col]\<close> was a column: the
  cells under the label are replaced, row by row.
\<close>

definition setitem :: "'c frame \<Rightarrow> nat \<Rightarrow> 'c list \<Rightarrow> 'c frame" where
  "setitem df i vs = df\<lparr>rows := map (\<lambda>(r, v). r[i := v]) (zip (rows df) vs)\<rparr>"

section \<open>Score Normalizer\<close>

text \<open>
  \<^verbatim>\<open>pd.to_numeric(column, errors="coerce")\<close>: a string that the library's number parser
  accepts becomes that number, every other string becomes the missing marker, numbers and
  missing markers stay. The parser \<open>P\<close> is the library's and is a parameter; \<open>P s = None\<close>
  says that \<open>s\<close> does not parse to a number. On a table instead of a column the call raises
  \<^verbatim>\<open>TypeError\<close>.
\<close>

fun coerce :: "(pystr \<Rightarrow> 'n option) \<Rightarrow> 'n cell \<Rightarrow> 'n cell" where
  "coerce P (Str s) = (case P s of None \<Rightarrow> NA | Some v \<Rightarrow> Num v)"
| "coerce P (Num v) = Num v"
| "coerce P NA = NA"

definition to_numeric :: "(pystr \<Rightarrow> 'n option) \<Rightarrow> 'n cell selection \<Rightarrow> py_error + 'n cell list" where
  "to_numeric P arg =
     (case arg of SubTable \<Rightarrow> Inl TypeError | Series xs \<Rightarrow> Inr (map (coerce P) xs))"

definition score_columns :: "'c frame \<Rightarrow> pystr list" where
  "score_columns df = filter (\<lambda>col. col \<notin> set expected_columns) (columns df)"

definition coerce_column ::
  "(pystr \<Rightarrow> 'n option) \<Rightarrow> 'n cell frame \<Rightarrow> pystr \<Rightarrow> py_error + 'n cell frame" where
  "coerce_column P df col =
     (case getitem df col of
        Inl e \<Rightarrow> Inl e
      | Inr sel \<Rightarrow>
          (case to_numeric P sel of
             Inl e \<Rightarrow> Inl e
           | Inr vs \<Rightarrow> Inr (setitem df (hd (positions_from 0 col (columns df))) vs)))"

text \<open>The loop \<^verbatim>\<open>for col in score_columns: df[col] = pd.to_numeric(df[col], ...)\<close>.\<close>

fun normalize_scores ::
  "(pystr \<Rightarrow> 'n option) \<Rightarrow> pystr list \<Rightarrow> 'n cell frame \<Rightarrow> py_error + 'n cell frame" where
  "normalize_scores P [] df = Inr df"
| "normalize_scores P (col # cols) df =
     (case coerce_column P df col of
        Inl e \<Rightarrow> Inl e
      | Inr df' \<Rightarrow> normalize_scores P cols df')"

section \<open>Aggregator\<close>

text \<open>
  \<^verbatim>\<open>df[score_columns].mean().reset_index()\<close>. Selecting by a list of labels raises
  \<^verbatim>\<open>KeyError\<close> for an unknown label and takes every column under each label. The mean of
  a column skips the missing markers; with no value left it is the missing marker. On a
  column that still holds a string the reduction raises \<^verbatim>\<open>TypeError\<close>. The mean of
  the values that are left is computed by the library in floating point: \<open>M\<close> is that
  computation, a parameter (its result is a cell, since the float result can itself be
  \<^verbatim>\<open>NaN\<close>).
\<close>

fun nonmissing :: "'n cell list \<Rightarrow> 'n list" where
  "nonmissing [] = []"
| "nonmissing (Num v # xs) = v # nonmissing xs"
| "nonmissing (x # xs) = nonmissing xs"

fun is_Str :: "'n cell \<Rightarrow> bool" where
  "is_Str (Str s) = True"
| "is_Str x = False"

definition column_mean :: "('n list \<Rightarrow> 'n cell) \<Rightarrow> 'n cell list \<Rightarrow> py_error + 'n cell" where
  "column_mean M xs =
     (if list_ex is_Str xs then Inl TypeError
      else case nonmissing xs of [] \<Rightarrow> Inr NA | v # vs \<Rightarrow> Inr (M (v # vs)))"

definition select_columns :: "'c frame \<Rightarrow> pystr list \<Rightarrow> py_error + (pystr \<times> 'c list) list" where
  "select_columns df cols =
     (if list_ex (\<lambda>col. col \<notin> set (columns df)) cols then Inl KeyError
      else Inr (concat (map (\<lambda>col. map (\<lambda>i. (col, column_at df i))
                                        (positions_from 0 col (columns df))) cols)))"

fun means :: "('n list \<Rightarrow> 'n cell) \<Rightarrow> (pystr \<times> 'n cell list) list \<Rightarrow> py_error + (pystr \<times> 'n cell) list" where
  "means M [] = Inr []"
| "means M ((col, xs) # rest) =
     (case column_mean M xs of
        Inl e \<Rightarrow> Inl e
      | Inr m \<Rightarrow> (case means M rest of Inl e \<Rightarrow> Inl e | Inr ms \<Rightarrow> Inr ((col, m) # ms)))"

definition overall_averages ::
  "('n list \<Rightarrow> 'n cell) \<Rightarrow> 'n cell frame \<Rightarrow> pystr list \<Rightarrow> py_error + (pystr \<times> 'n cell) list" where
  "overall_averages M df cols =
     (case select_columns df cols of Inl e \<Rightarrow> Inl e | Inr sel \<Rightarrow> means M sel)"

section \<open>Student selector\<close>

text \<open>
  \<^verbatim>\<open>[name for name in df["name"].tolist() if pd.notna(name)]\<close>; a table has no
  \<^verbatim>\<open>tolist\<close>.
\<close>

fun notna :: "'n cell \<Rightarrow> bool" where
  "notna NA = False"
| "notna x = True"

definition student_names :: "'n cell frame \<Rightarrow> py_error + 'n cell list" where
  "student_names df =
     (case getitem df col_name of
        Inl e \<Rightarrow> Inl e
      | Inr SubTable \<Rightarrow> Inl AttributeError
      | Inr (Series names) \<Rightarrow> Inr (filter notna names))"

text \<open>
  The radio widget returns one of its options: the one the user clicked, the first one
  before any click. The click is the index \<open>choice\<close>.
\<close>

definition radio :: "'a list \<Rightarrow> nat \<Rightarrow> 'a" where
  "radio options choice = options ! (if choice < length options then choice else 0)"

text \<open>Python's truth value of the selected option, tested by \<^verbatim>\<open>if selected_student:\<close>.\<close>

fun truthy :: "'n::zero cell \<Rightarrow> bool" where
  "truthy (Str s) = (s \<noteq> [])"
| "truthy (Num v) = (v \<noteq> 0)"
| "truthy NA = False"

section \<open>Per-Student Reshaper\<close>

text \<open>
  \<^verbatim>\<open>student_df = df[df["name"] == selected_student]\<close> keeps the rows whose name cell equals
  the selection, in table order; \<^verbatim>\<open>student_df.iloc[0]\<close> is the first of them and raises
  \<^verbatim>\<open>IndexError\<close> when there is none. The mask is built from the same \<^verbatim>\<open>df["name"]\<close> the
  selector has read before; for a label that occurs twice the selector has already raised.
\<close>

definition student_df :: "'n cell frame \<Rightarrow> 'n cell \<Rightarrow> py_error + 'n cell list list" where
  "student_df df selected_student =
     (case getitem df col_name of
        Inl e \<Rightarrow> Inl e
      | Inr SubTable \<Rightarrow> Inl ValueError
      | Inr (Series names) \<Rightarrow>
          Inr (map fst (filter (\<lambda>(r, name). name = selected_student) (zip (rows df) names))))"

definition iloc0 :: "'a list \<Rightarrow> py_error + 'a" where
  "iloc0 xs = (case xs of [] \<Rightarrow> Inl IndexError | x # _ \<Rightarrow> Inr x)"

text \<open>
  \<^verbatim>\<open>student_data[col]\<close>: the cell of the row under a label of the table. For an unknown
  label the lookup raises \<^verbatim>\<open>KeyError\<close>, which \<open>plot_df\<close> below checks before the cells
  are read. The labels asked for are score columns on which the normalizer has not raised,
  so each occurs once.
\<close>

definition row_item :: "'c frame \<Rightarrow> 'c list \<Rightarrow> pystr \<Rightarrow> 'c" where
  "row_item df r col = r ! hd (positions_from 0 col (columns df))"

definition student_scores :: "'c frame \<Rightarrow> 'c list \<Rightarrow> pystr list \<Rightarrow> (pystr \<times> 'c) list" where
  "student_scores df student_data cols = map (\<lambda>col. (col, row_item df student_data col)) cols"

text \<open>
  \<^verbatim>\<open>pd.merge(left, right, on=key, how="left")\<close>: every row of the left table in order, once
  for each row of the right table with the same key, and once with a missing right value
  when there is none.
\<close>

definition merge_left ::
  "(pystr \<times> 'n cell) list \<Rightarrow> (pystr \<times> 'n cell) list \<Rightarrow> (pystr \<times> 'n cell \<times> 'n cell) list" where
  "merge_left left right =
     concat (map (\<lambda>(k, a).
       case filter (\<lambda>(k', b). k' = k) right of
         [] \<Rightarrow> [(k, a, NA)]
       | m # ms \<Rightarrow> map (\<lambda>(k', b). (k, a, b)) (m # ms)) left)"

definition plot_df ::
  "'n cell frame \<Rightarrow> (pystr \<times> 'n cell) list \<Rightarrow> pystr list \<Rightarrow> 'n cell \<Rightarrow>
     py_error + (pystr \<times> 'n cell \<times> 'n cell) list" where
  "plot_df df averages cols selected_student =
     (case student_df df selected_student of
        Inl e \<Rightarrow> Inl e
      | Inr matching \<Rightarrow>
          (case iloc0 matching of
             Inl e \<Rightarrow> Inl e
           | Inr student_data \<Rightarrow>
               if list_ex (\<lambda>col. col \<notin> set (columns df)) cols then Inl KeyError
               else Inr (merge_left averages (student_scores df student_data cols))))"

section \<open>The page\<close>

text \<open>
  What one run of the script shows, from the call of \<^verbatim>\<open>load_data\<close> on. Each
  \<^verbatim>\<open>st.stop()\<close> is an outcome of its own: \<open>NoData\<close> is the notice for an empty table,
  \<open>SchemaError\<close> carries the labels printed in the error message and the table shown under
  it, \<open>Dashboard\<close> carries the selection and the comparison table that the chart and the
  detail table draw. \<open>Crash\<close> is an exception nobody catches.
\<close>

datatype 'n outcome =
    NoData
  | SchemaError "pystr list" "'n cell frame"
  | NoStudents
  | NoSelection
  | Dashboard "'n cell" "(pystr \<times> 'n cell \<times> 'n cell) list"
  | Crash py_error

definition dashboard ::
  "(pystr \<Rightarrow> 'n option) \<Rightarrow> ('n list \<Rightarrow> 'n cell) \<Rightarrow> 'n::zero cell frame \<Rightarrow> nat \<Rightarrow> 'n outcome" where
  "dashboard P M df choice =
     (if columns df = [] \<or> rows df = [] then NoData
      else if \<not> list_all (\<lambda>col. col \<in> set (columns df)) expected_columns
        then SchemaError expected_columns df
      else (case normalize_scores P (score_columns df) df of
              Inl e \<Rightarrow> Crash e
            | Inr df' \<Rightarrow>
                (case overall_averages M df' (score_columns df) of
                   Inl e \<Rightarrow> Crash e
                 | Inr averages \<Rightarrow>
                     (case student_names df' of
                        Inl e \<Rightarrow> Crash e
                      | Inr names \<Rightarrow>
                          (if names = [] then NoStudents
                           else (let selected_student = radio names choice in
                             (if \<not> truthy selected_student then NoSelection
                              else (case plot_df df' averages (score_columns df) selected_student of
                                      Inl e \<Rightarrow> Crash e
                                    | Inr p \<Rightarrow> Dashboard selected_student p))))))))"

section \<open>The cache of the loader\<close>




section \<open>The normalizer, cell by cell\<close>

text \<open>
  The Score Normalizer as the specification words it: every cell outside the three
  identity columns is coerced, every other cell is kept. The loop of the script is
  compared with this table below.
\<close>

definition spec_normalize :: "(pystr \<Rightarrow> 'n option) \<Rightarrow> 'n cell frame \<Rightarrow> 'n cell frame" where
  "spec_normalize P df =
     df\<lparr>rows := map (\<lambda>r. map (\<lambda>(col, x). if col \<in> set expected_columns then x else coerce P x)
                                (zip (columns df) r)) (rows df)\<rparr>"

text \<open>Auxiliary notions of the proofs: one step of the loop on one row, and its result.\<close>

definition coerce_at :: "(pystr \<Rightarrow> 'n option) \<Rightarrow> nat \<Rightarrow> 'n cell list \<Rightarrow> 'n cell list" where
  "coerce_at P i r = r[i := coerce P (r ! i)]"

definition coerce_row :: "(pystr \<Rightarrow> 'n option) \<Rightarrow> pystr list \<Rightarrow> pystr list \<Rightarrow> 'n cell list \<Rightarrow> 'n cell list" where
  "coerce_row P cs cols r = map (\<lambda>(col, x). if col \<in> set cs then coerce P x else x) (zip cols r)"

definition mean_value :: "('n list \<Rightarrow> 'n cell) \<Rightarrow> 'n cell list \<Rightarrow> 'n cell" where
  "mean_value M xs = (case nonmissing xs of [] \<Rightarrow> NA | v # vs \<Rightarrow> M (v # vs))"

section \<open>Example inputs\<close>

text \<open>
  A stand-in parser and mean for the examples: unsigned decimal integers, and the integer
  quotient of sum and count. They are not the library's; every theorem below holds for
  all \<open>P\<close> and \<open>M\<close>.
\<close>

definition example_parser :: "pystr \<Rightarrow> int option" where
  "example_parser s =
     (if s \<noteq> [] \<and> list_all (\<lambda>c. 48 \<le> c \<and> c \<le> 57) s
      then Some (foldl (\<lambda>a c. 10 * a + (int c - 48)) 0 s) else None)"

definition example_mean :: "int list \<Rightarrow> int cell" where
  "example_mean vs = Num (sum_list vs div int (length vs))"

text \<open>Two score columns and two student names of the examples.\<close>

definition unit1 :: pystr where "unit1 = [45800, 50896, 49]"

definition unit2 :: pystr where "unit2 = [45800, 50896, 50]"

definition cheolsu :: pystr where "cheolsu = [52384, 49688]"

definition younghee :: pystr where "younghee = [50689, 55148]"

text \<open>
  A worksheet with a blank line between the header and the only data row.
\<close>

definition sheet_with_blank_row :: remote where
  "sheet_with_blank_row w =
     Some [[col_number, col_name, col_gender, unit1],
           [[], [], [], []],
           [[49], cheolsu, [45224], [57, 48]]]"

text \<open>
  Two students and two score columns: one score does not parse, and no cell of the second
  column does. Below it the table after normalization.
\<close>

definition sheet_scores :: remote where
  "sheet_scores w =
     Some [[col_number, col_name, col_gender, unit1, unit2],
           [[49], cheolsu, [45224], [57, 48], [45]],
           [[50], younghee, [50668], [120], [63]]]"

definition normalized_scores :: "int cell frame" where
  "normalized_scores =
     \<lparr>columns = [col_number, col_name, col_gender, unit1, unit2],
      rows = [[Str [49], Str cheolsu, Str [45224], Num 90, NA],
              [Str [50], Str younghee, Str [50668], NA, NA]]\<rparr>"

text \<open>Two rows with the same name, and the table after normalization.\<close>

definition sheet_same_name :: remote where
  "sheet_same_name w =
     Some [[col_number, col_name, col_gender, unit1],
           [[49], cheolsu, [45224], [57, 48]],
           [[50], cheolsu, [50668], [55, 48]]]"


text \<open>A worksheet without the gender column: with its header only, and with one data row.\<close>

definition sheet_header_only :: remote where
  "sheet_header_only w = Some [[col_number, col_name, unit1]]"

definition sheet_no_gender :: remote where
  "sheet_no_gender w = Some [[col_number, col_name, unit1], [[49], cheolsu, [57, 48]]]"

section \<open>Unfolding the examples\<close>

lemmas example_defs = load_data_def DataFrame_def widest_def
      dropna_all_def pad_row_def sanitize_cell_def astype_str_def utf8_roundtrip_def
      surrogate_def col_number_def col_name_def col_gender_def unit1_def unit2_def
      cheolsu_def younghee_def expected_columns_def score_columns_def coerce_column_def
      getitem_def to_numeric_def setitem_def column_at_def example_parser_def
      example_mean_def overall_averages_def select_columns_def column_mean_def
      student_names_def student_df_def iloc0_def row_item_def student_scores_def
      merge_left_def plot_df_def dashboard_def radio_def

lemmas stage_defs = col_number_def col_name_def col_gender_def unit1_def unit2_def cheolsu_def
      younghee_def expected_columns_def score_columns_def coerce_column_def getitem_def
      to_numeric_def setitem_def column_at_def example_parser_def example_mean_def
      overall_averages_def select_columns_def column_mean_def student_names_def student_df_def
      iloc0_def row_item_def student_scores_def merge_left_def plot_df_def

section \<open>Labels that occur once\<close>

lemma positions_from_notin: "x \<notin> set ys \<Longrightarrow> positions_from n x ys = []"
  by (induction ys arbitrary: n) auto

lemma positions_from_distinct:
  "distinct ys \<Longrightarrow> x \<in> set ys \<Longrightarrow> \<exists>i<length ys. ys ! i = x \<and> positions_from n x ys = [n + i]"
proof (induction ys arbitrary: n)
  case Nil
  then show ?case by simp
next
  case (Cons y ys)
  show ?case
  proof (cases "x = y")
    case True
    with Cons.prems have "x \<notin> set ys" by simp
    then have "positions_from (Suc n) x ys = []" by (rule positions_from_notin)
    with True show ?thesis by auto
  next
    case False
    with Cons.prems have "distinct ys" "x \<in> set ys" by auto
    from Cons.IH[OF this, of "Suc n"] obtain i where
      "i < length ys" "ys ! i = x" "positions_from (Suc n) x ys = [Suc n + i]" by blast
    with False show ?thesis by (intro exI[of _ "Suc i"]) auto
  qed
qed

lemma unique_position:
  assumes "distinct cols" "c \<in> set cols"
  obtains i where "i < length cols" "cols ! i = c" "positions_from 0 c cols = [i]"
  using positions_from_distinct[OF assms, of 0] by auto

lemma getitem_unique:
  "positions_from 0 col (columns df) = [i] \<Longrightarrow> getitem df col = Inr (Series (column_at df i))"
  by (simp add: getitem_def)

section \<open>Properties of the Data Loader\<close>

lemma widest_ge: "r \<in> set body \<Longrightarrow> length r \<le> widest body"
  by (induction body) (auto simp: widest_def)

lemma length_pad_row: "length r \<le> w \<Longrightarrow> length (pad_row w r) = w"
  by (simp add: pad_row_def)

lemma DataFrame_shape:
  assumes "DataFrame body header = Inr df0"
  shows "columns df0 = header" and "list_all (\<lambda>r. length r = length header) (rows df0)"
proof -
  show "columns df0 = header"
    using assms by (auto simp: DataFrame_def split: if_splits)
  show "list_all (\<lambda>r. length r = length header) (rows df0)"
  proof (cases "body = []")
    case True
    with assms show ?thesis by (auto simp: DataFrame_def)
  next
    case False
    with assms have w: "widest body = length header"
      and r: "rows df0 = map (pad_row (length header)) body"
      by (auto simp: DataFrame_def split: if_splits)
    have "length (pad_row (length header) x) = length header" if "x \<in> set body" for x
      using widest_ge[OF that] w by (simp add: length_pad_row)
    then show ?thesis by (simp add: r list_all_iff)
  qed
qed

text \<open>
  The loader either returns the empty table of its \<^verbatim>\<open>except\<close> branch, or a table with
  pairwise distinct labels whose rows are the padded data rows that are not all
  \<^verbatim>\<open>None\<close>, every cell turned into a string.
\<close>

lemma load_data_shape:
  "(load_data sheet w :: 'n cell frame) = empty_frame \<or>
   (\<exists>header body df0. sheet w = Some (header # body) \<and> DataFrame body header = Inr df0 \<and>
      distinct header \<and>
      (load_data sheet w :: 'n cell frame) = \<lparr>columns = header,
         rows = map (map sanitize_cell)
                  (filter (\<lambda>r. \<not> list_all (\<lambda>c. c = None) r) (rows df0))\<rparr>)"
proof (cases "sheet w")
  case None
  then show ?thesis by (simp add: load_data_def)
next
  case (Some data)
  show ?thesis
  proof (cases data)
    case Nil
    with Some show ?thesis by (simp add: load_data_def)
  next
    case (Cons header body)
    show ?thesis
    proof (cases "DataFrame body header")
      case (Inl e)
      with Some Cons show ?thesis by (simp add: load_data_def)
    next
      case (Inr df0)
      then have cols: "columns df0 = header" by (rule DataFrame_shape)
      with Some Cons Inr show ?thesis
        by (cases "distinct header") (simp_all add: load_data_def dropna_all_def Let_def)
    qed
  qed
qed

lemma load_data_distinct: "distinct (columns (load_data sheet w :: 'n cell frame))"
  using load_data_shape[of sheet w, where 'n='n] by (auto simp: empty_frame_def)

lemma load_data_rectangular: "rectangular (load_data sheet w :: 'n cell frame)"
  using load_data_shape[of sheet w, where 'n='n]
  by (auto simp: empty_frame_def rectangular_def list_all_iff dest!: DataFrame_shape(2))

lemma load_data_strings: "list_all (list_all is_Str) (rows (load_data sheet w :: 'n cell frame))"
  using load_data_shape[of sheet w, where 'n='n]
  by (auto simp: empty_frame_def list_all_iff sanitize_cell_def)

text \<open>
  Claim C1. The loader is to return no row whose cells are all empty. A worksheet with a
  blank line between the header and a data row gives a row of four empty strings;
  \<^verbatim>\<open>dropna(how="all")\<close> removes only rows of missing markers, and an empty string is not
  one, so the loader returns the blank row as the first row of its table.
\<close>

theorem load_data_keeps_blank_row:
  "(load_data sheet_with_blank_row w :: 'n cell frame) =
     \<lparr>columns = [col_number, col_name, col_gender, unit1],
      rows = [[Str [], Str [], Str [], Str []],
              [Str [49], Str cheolsu, Str [45224], Str [57, 48]]]\<rparr>"
  by (simp add: sheet_with_blank_row_def example_defs)


section \<open>Properties of the Score Normalizer\<close>

lemma zip_map_self: "zip xs (map f xs) = map (\<lambda>x. (x, f x)) xs"
  by (induction xs) auto

lemma coerce_column_unique:
  "positions_from 0 col (columns df) = [i] \<Longrightarrow>
   coerce_column P df col = Inr (df\<lparr>rows := map (coerce_at P i) (rows df)\<rparr>)"
  by (simp add: coerce_column_def getitem_def to_numeric_def setitem_def column_at_def
      zip_map_self coerce_at_def o_def)

lemma coerce_column_Inr:
  "coerce_column P df col = Inr df' \<Longrightarrow>
   \<exists>i. positions_from 0 col (columns df) = [i] \<and> df' = df\<lparr>rows := map (coerce_at P i) (rows df)\<rparr>"
  by (auto simp: coerce_column_def getitem_def to_numeric_def setitem_def column_at_def
      zip_map_self coerce_at_def o_def split: list.splits)

lemma coerce_idem: "coerce P (coerce P x) = coerce P x"
  by (cases x) (auto split: option.splits)

lemma not_Str_coerce: "\<not> is_Str (coerce P x)"
  by (cases x) (auto split: option.splits)

lemma coerce_at_twice: "coerce_at P i (coerce_at P i r) = coerce_at P i r"
proof (cases "i < length r")
  case True
  then show ?thesis by (simp add: coerce_at_def coerce_idem)
next
  case False
  then have "coerce_at P i r = r" by (simp add: coerce_at_def list_update_beyond)
  then show ?thesis by simp
qed

lemma coerce_at_keeps_fixed:
  assumes "coerce_at P i r = r"
  shows "coerce_at P i (coerce_at P j r) = coerce_at P j r"
proof (cases "i = j")
  case True
  then show ?thesis by (simp add: coerce_at_twice)
next
  case False
  then have "coerce_at P i (coerce_at P j r) = coerce_at P j (coerce_at P i r)"
    by (simp add: coerce_at_def list_update_swap)
  with assms show ?thesis by simp
qed

lemma coerce_column_columns: "coerce_column P df col = Inr df' \<Longrightarrow> columns df' = columns df"
  by (auto dest: coerce_column_Inr)

lemma normalize_columns: "normalize_scores P cols df = Inr df' \<Longrightarrow> columns df' = columns df"
proof (induction cols arbitrary: df)
  case Nil
  then show ?case by simp
next
  case (Cons c cols)
  then show ?case by (auto split: sum.splits dest: coerce_column_columns)
qed

lemma coerce_column_fixed:
  assumes "coerce_column P df col = Inr df'" and "list_all (\<lambda>r. coerce_at P i r = r) (rows df)"
  shows "list_all (\<lambda>r. coerce_at P i r = r) (rows df')"
proof -
  from assms(1) obtain j where "df' = df\<lparr>rows := map (coerce_at P j) (rows df)\<rparr>"
    by (auto dest: coerce_column_Inr)
  with assms(2) show ?thesis
    by (auto simp: list_all_iff coerce_at_keeps_fixed)
qed

lemma normalize_fixed:
  "normalize_scores P cols df = Inr df' \<Longrightarrow> list_all (\<lambda>r. coerce_at P i r = r) (rows df) \<Longrightarrow>
   list_all (\<lambda>r. coerce_at P i r = r) (rows df')"
proof (induction cols arbitrary: df)
  case Nil
  then show ?case by simp
next
  case (Cons c cols)
  from Cons.prems(1) obtain df1 where
    c: "coerce_column P df c = Inr df1" and n: "normalize_scores P cols df1 = Inr df'"
    by (auto split: sum.splits)
  from coerce_column_fixed[OF c Cons.prems(2)] Cons.IH[OF n] show ?case by blast
qed

lemma normalize_again: "normalize_scores P cols df = Inr df' \<Longrightarrow> normalize_scores P cols df' = Inr df'"
proof (induction cols arbitrary: df)
  case Nil
  then show ?case by simp
next
  case (Cons c cols)
  from Cons.prems obtain df1 where
    c: "coerce_column P df c = Inr df1" and n: "normalize_scores P cols df1 = Inr df'"
    by (auto split: sum.splits)
  from coerce_column_Inr[OF c] obtain i where
    i: "positions_from 0 c (columns df) = [i]" and
    df1: "df1 = df\<lparr>rows := map (coerce_at P i) (rows df)\<rparr>" by blast
  have "list_all (\<lambda>r. coerce_at P i r = r) (rows df1)"
    by (simp add: df1 list_all_iff coerce_at_twice)
  from normalize_fixed[OF n this] have fixed: "map (coerce_at P i) (rows df') = rows df'"
    by (simp add: list_all_iff map_idI)
  have "columns df' = columns df"
    using normalize_columns[OF n] by (simp add: df1)
  with i have "positions_from 0 c (columns df') = [i]" by simp
  from coerce_column_unique[OF this, of P] fixed have "coerce_column P df' c = Inr df'"
    by simp
  moreover have "normalize_scores P cols df' = Inr df'" by (rule Cons.IH[OF n])
  ultimately show ?case by simp
qed

text \<open>
  Claim C5. Normalizing is idempotent, for every table \<open>T\<close>, every list \<open>C\<close> of labels and
  every parser: normalizing the result of a normalization again returns that result, and
  where the first normalization raises there is no result to normalize.
\<close>

theorem normalize_idempotent:
  "(case normalize_scores P C T of Inl e \<Rightarrow> Inl e | Inr T' \<Rightarrow> normalize_scores P C T') = normalize_scores P C T"
  by (cases "normalize_scores P C T") (simp_all add: normalize_again)

text \<open>
  On a table with distinct labels and rows of full width the loop succeeds and is the
  cell-wise map.
\<close>

lemma length_coerce_at [simp]: "length (coerce_at P i r) = length r"
  by (simp add: coerce_at_def)

lemma coerce_row_Nil: "length r = length cols \<Longrightarrow> coerce_row P [] cols r = r"
proof -
  assume "length r = length cols"
  then have "map snd (zip cols r) = r" by simp
  moreover have "coerce_row P [] cols r = map snd (zip cols r)"
    by (simp add: coerce_row_def split_def)
  ultimately show ?thesis by simp
qed

lemma coerce_row_step:
  assumes "distinct cols" "length r = length cols" "i < length cols" "cols ! i = c"
  shows "coerce_row P cs cols (coerce_at P i r) = coerce_row P (c # cs) cols r"
proof (rule nth_equalityI)
  show "length (coerce_row P cs cols (coerce_at P i r)) = length (coerce_row P (c # cs) cols r)"
    by (simp add: coerce_row_def)
next
  fix k assume "k < length (coerce_row P cs cols (coerce_at P i r))"
  with assms(2) have k: "k < length cols" "k < length r" by (simp_all add: coerce_row_def)
  have "cols ! k = c \<longleftrightarrow> k = i"
    using assms k by (auto simp: nth_eq_iff_index_eq)
  with k assms(2) show "coerce_row P cs cols (coerce_at P i r) ! k = coerce_row P (c # cs) cols r ! k"
    by (auto simp: coerce_row_def coerce_at_def coerce_idem nth_list_update)
qed

lemma coerce_row_nth:
  "length r = length cols \<Longrightarrow> i < length cols \<Longrightarrow>
   coerce_row P cs cols r ! i = (if cols ! i \<in> set cs then coerce P (r ! i) else r ! i)"
  by (simp add: coerce_row_def)

lemma normalize_distinct:
  "distinct (columns df) \<Longrightarrow> rectangular df \<Longrightarrow> set cs \<subseteq> set (columns df) \<Longrightarrow>
   normalize_scores P cs df = Inr (df\<lparr>rows := map (coerce_row P cs (columns df)) (rows df)\<rparr>)"
proof (induction cs arbitrary: df)
  case Nil
  then have "map (coerce_row P [] (columns df)) (rows df) = rows df"
    by (intro map_idI) (simp add: rectangular_def list_all_iff coerce_row_Nil)
  then show ?case by simp
next
  case (Cons c cs)
  from Cons.prems obtain i where i: "i < length (columns df)" "columns df ! i = c"
    "positions_from 0 c (columns df) = [i]"
    by (auto elim: unique_position)
  define df1 where "df1 = df\<lparr>rows := map (coerce_at P i) (rows df)\<rparr>"
  have c: "coerce_column P df c = Inr df1"
    unfolding df1_def by (rule coerce_column_unique[OF i(3)])
  have "distinct (columns df1)" "rectangular df1" "set cs \<subseteq> set (columns df1)"
    using Cons.prems by (simp_all add: df1_def rectangular_def list_all_iff)
  from Cons.IH[OF this] have
    "normalize_scores P cs df1 = Inr (df1\<lparr>rows := map (coerce_row P cs (columns df1)) (rows df1)\<rparr>)" .
  moreover have "map (coerce_row P cs (columns df1)) (rows df1) =
      map (coerce_row P (c # cs) (columns df)) (rows df)"
    using Cons.prems(1,2) i(1,2)
    by (simp add: df1_def rectangular_def list_all_iff coerce_row_step)
  ultimately show ?case using c by (simp add: df1_def)
qed

lemma score_columns_subset: "set (score_columns df) \<subseteq> set (columns df)"
  by (auto simp: score_columns_def)


lemma coerce_row_score_columns:
  "coerce_row P (score_columns df) (columns df) r =
   map (\<lambda>(col, x). if col \<in> set expected_columns then x else coerce P x) (zip (columns df) r)"
  unfolding coerce_row_def
  by (rule map_cong) (auto simp: score_columns_def dest: set_zip_leftD)

lemma normalize_loaded:
  fixes P :: "pystr \<Rightarrow> 'n option"
  shows "normalize_scores P (score_columns (load_data sheet w :: 'n cell frame)) (load_data sheet w) =
    Inr (spec_normalize P (load_data sheet w))"
proof -
  let ?df = "load_data sheet w :: 'n cell frame"
  have "normalize_scores P (score_columns ?df) ?df =
      Inr (?df\<lparr>rows := map (coerce_row P (score_columns ?df) (columns ?df)) (rows ?df)\<rparr>)"
    by (rule normalize_distinct[OF load_data_distinct load_data_rectangular score_columns_subset])
  then show ?thesis
    by (simp add: spec_normalize_def coerce_row_score_columns)
qed

text \<open>
  Claim C7. On every table the loader returns and for every parser, the normalizer does
  not raise, and its result is the loaded table with every cell outside the identity
  columns coerced: a string that parses becomes its number, a string that fails to parse
  becomes the missing marker (the equations of \<open>coerce\<close>), and no string is left in a
  score column.
\<close>

theorem normalizer_coerces_every_score_cell:
  fixes P :: "pystr \<Rightarrow> 'n option"
  shows "normalize_scores P (score_columns (load_data sheet w :: 'n cell frame)) (load_data sheet w)
           = Inr (spec_normalize P (load_data sheet w))
       \<and> coerce P (Str s) = (case P s of None \<Rightarrow> NA | Some v \<Rightarrow> Num v)
       \<and> \<not> is_Str (coerce P x)"
  by (simp add: normalize_loaded not_Str_coerce)

lemma spec_normalize_columns [simp]: "columns (spec_normalize P df) = columns df"
  by (simp add: spec_normalize_def)

lemma spec_normalize_rows:
  "rows (spec_normalize P df) = map (coerce_row P (score_columns df) (columns df)) (rows df)"
  by (simp add: spec_normalize_def coerce_row_score_columns)

lemma column_at_spec_normalize:
  assumes "rectangular df" "i < length (columns df)"
  shows "column_at (spec_normalize P df) i =
    (if columns df ! i \<in> set expected_columns then column_at df i
     else map (coerce P) (column_at df i))"
proof -
  have "coerce_row P (score_columns df) (columns df) r ! i =
      (if columns df ! i \<in> set expected_columns then r ! i else coerce P (r ! i))"
    if "r \<in> set (rows df)" for r
  proof -
    from that assms(1) have "length r = length (columns df)"
      by (simp add: rectangular_def list_all_iff)
    from coerce_row_nth[OF this assms(2)] assms(2) show ?thesis
      by (auto simp: score_columns_def)
  qed
  then show ?thesis
    by (auto simp: column_at_def spec_normalize_rows)
qed

text \<open>The example of the specification, extended by a column in which nothing parses.\<close>

lemma scores_loaded:
  "(load_data sheet_scores w :: int cell frame) =
     \<lparr>columns = [col_number, col_name, col_gender, unit1, unit2],
      rows = [[Str [49], Str cheolsu, Str [45224], Str [57, 48], Str [45]],
              [Str [50], Str younghee, Str [50668], Str [120], Str [63]]]\<rparr>"
  by (simp add: sheet_scores_def example_defs)

lemma scores_score_columns:
  "score_columns (load_data sheet_scores w :: int cell frame) = [unit1, unit2]"
  by (simp add: scores_loaded) (simp add: stage_defs)

lemma scores_normalized:
  "normalize_scores example_parser (score_columns (load_data sheet_scores w :: int cell frame))
     (load_data sheet_scores w) = Inr normalized_scores"
  by (simp add: scores_score_columns scores_loaded) (simp add: normalized_scores_def stage_defs)

section \<open>Properties of the Aggregator\<close>

text \<open>
  The aggregator hands the non-missing values of a column, in row order, to the mean of
  the library.
\<close>

lemma column_mean_nonmissing:
  "\<not> list_ex is_Str xs \<Longrightarrow> nonmissing xs \<noteq> [] \<Longrightarrow> column_mean M xs = Inr (M (nonmissing xs))"
  by (simp add: column_mean_def split: list.splits)

lemma column_mean_numeric:
  "\<not> list_ex is_Str xs \<Longrightarrow> column_mean M xs = Inr (mean_value M xs)"
  by (simp add: column_mean_def mean_value_def split: list.splits)

lemma means_numeric:
  "list_all (\<lambda>(c, xs). \<not> list_ex is_Str xs) sel \<Longrightarrow>
   means M sel = Inr (map (\<lambda>(c, xs). (c, mean_value M xs)) sel)"
  by (induction sel) (auto simp: column_mean_numeric)

lemma select_columns_distinct:
  assumes "distinct (columns df)" "set cs \<subseteq> set (columns df)"
  shows "select_columns df cs =
    Inr (map (\<lambda>c. (c, column_at df (hd (positions_from 0 c (columns df))))) cs)"
proof -
  have "concat (map (\<lambda>col. map (\<lambda>i. (col, column_at df i)) (positions_from 0 col (columns df))) cs)
      = map (\<lambda>c. (c, column_at df (hd (positions_from 0 c (columns df))))) cs"
    using assms(2)
  proof (induction cs)
    case Nil
    then show ?case by simp
  next
    case (Cons c cs)
    then have "c \<in> set (columns df)" by simp
    with assms(1) obtain i where "positions_from 0 c (columns df) = [i]"
      by (auto elim: unique_position)
    with Cons show ?case by simp
  qed
  moreover have "\<not> list_ex (\<lambda>col. col \<notin> set (columns df)) cs"
    using assms(2) by (auto simp: list_ex_iff)
  ultimately show ?thesis by (simp add: select_columns_def)
qed

lemma nonmissing_all_NA: "list_all (\<lambda>x. x = NA) xs \<Longrightarrow> nonmissing xs = []"
  by (induction xs) auto



lemma map_of_keyed: "c \<in> set cs \<Longrightarrow> map_of (map (\<lambda>c. (c, f c)) cs) c = Some (f c)"
  by (induction cs) auto

lemma overall_averages_normalized:
  assumes d: "distinct (columns df)" and r: "rectangular df"
  shows "overall_averages M (spec_normalize P df) (score_columns df) =
    Inr (map (\<lambda>c. (c, mean_value M (column_at (spec_normalize P df)
                          (hd (positions_from 0 c (columns df)))))) (score_columns df))"
proof -
  let ?df' = "spec_normalize P df"
  let ?pos = "\<lambda>c. hd (positions_from 0 c (columns df))"
  have sel: "select_columns ?df' (score_columns df) =
      Inr (map (\<lambda>c. (c, column_at ?df' (?pos c))) (score_columns df))"
    using select_columns_distinct[of ?df' "score_columns df"] d score_columns_subset[of df]
    by simp
  have "\<not> list_ex is_Str (column_at ?df' (?pos c))" if "c \<in> set (score_columns df)" for c
  proof -
    from that have "c \<in> set (columns df)" "c \<notin> set expected_columns"
      by (auto simp: score_columns_def)
    with d obtain i where i: "i < length (columns df)" "columns df ! i = c"
      "positions_from 0 c (columns df) = [i]"
      by (auto elim: unique_position)
    with \<open>c \<notin> set expected_columns\<close> column_at_spec_normalize[OF r i(1), of P]
    show ?thesis by (simp add: list_ex_iff not_Str_coerce)
  qed
  then have "list_all (\<lambda>(c, xs). \<not> list_ex is_Str xs)
      (map (\<lambda>c. (c, column_at ?df' (?pos c))) (score_columns df))"
    by (simp add: list_all_iff)
  from means_numeric[OF this, of M] sel show ?thesis
    by (simp add: overall_averages_def o_def)
qed


text \<open>
  Claim C4. When the script has normalized a loaded table and a score column holds only
  missing markers, the aggregator does not raise and its row for that column carries the
  missing marker: not a number, so not zero.
\<close>

theorem all_missing_column_has_missing_mean:
  fixes df' :: "'n cell frame"
  assumes "normalize_scores P (score_columns (load_data sheet w :: 'n cell frame))
             (load_data sheet w) = Inr df'"
    and "col \<in> set (score_columns (load_data sheet w :: 'n cell frame))"
    and "getitem df' col = Inr (Series xs)"
    and "list_all (\<lambda>x. x = NA) xs"
  shows "\<exists>averages. overall_averages M df' (score_columns (load_data sheet w :: 'n cell frame))
            = Inr averages \<and> map_of averages col = Some NA"
proof -
  let ?df = "load_data sheet w :: 'n cell frame"
  from assms(1) have df': "df' = spec_normalize P ?df"
    by (simp add: normalize_loaded)
  from assms(2) have "col \<in> set (columns ?df)"
    using score_columns_subset by blast
  then obtain i where i: "positions_from 0 col (columns ?df) = [i]"
    using load_data_distinct[of sheet w, where 'n='n] by (auto elim: unique_position)
  with assms(3) have xs: "xs = column_at df' i"
    by (simp add: getitem_def df')
  from assms(4) have "mean_value M xs = NA"
    by (simp add: mean_value_def nonmissing_all_NA)
  with xs i assms(2) show ?thesis
    by (simp add: df' overall_averages_normalized[OF load_data_distinct load_data_rectangular]
        map_of_keyed)
qed

theorem all_missing_column_has_missing_mean_witness:
  "\<exists>averages. overall_averages example_mean normalized_scores
        (score_columns (load_data sheet_scores [] :: int cell frame)) = Inr averages
      \<and> map_of averages unit2 = Some NA"
proof -
  have col: "unit2 \<in> set (score_columns (load_data sheet_scores [] :: int cell frame))"
    by (simp add: scores_score_columns)
  have xs: "getitem normalized_scores unit2 = Inr (Series [NA, NA])"
    by (simp add: normalized_scores_def stage_defs)
  have "list_all (\<lambda>x. x = NA) [NA, NA :: int cell]" by simp
  from all_missing_column_has_missing_mean[OF scores_normalized col xs this]
  show ?thesis .
qed

section \<open>Properties of the student selector\<close>

lemma student_names_Inr:
  assumes "student_names df = Inr names"
  obtains i where "positions_from 0 col_name (columns df) = [i]"
    "names = filter notna (column_at df i)"
  using assms
  by (auto simp: student_names_def getitem_def split: list.splits sum.splits selection.splits)

lemma filter_notna_strings: "list_all is_Str xs \<Longrightarrow> filter notna xs = xs"
  by (induction xs) (auto elim: is_Str.elims)

lemma student_names_loaded:
  fixes P :: "pystr \<Rightarrow> 'n option"
  assumes "col_name \<in> set (columns (load_data sheet w :: 'n cell frame))"
  shows "\<exists>names. student_names (spec_normalize P (load_data sheet w :: 'n cell frame)) = Inr names
    \<and> getitem (load_data sheet w :: 'n cell frame) col_name = Inr (Series names)
    \<and> length names = length (rows (load_data sheet w :: 'n cell frame))"
proof -
  let ?df = "load_data sheet w :: 'n cell frame"
  have rect: "rectangular ?df" by (rule load_data_rectangular)
  from assms obtain i where i: "i < length (columns ?df)" "columns ?df ! i = col_name"
    "positions_from 0 col_name (columns ?df) = [i]"
    using load_data_distinct[of sheet w, where 'n='n] by (auto elim: unique_position)
  have "col_name \<in> set expected_columns" by (simp add: expected_columns_def)
  with column_at_spec_normalize[OF rect i(1), of P] i(2)
  have same: "column_at (spec_normalize P ?df) i = column_at ?df i" by simp
  have "list_all is_Str (column_at ?df i)"
    using load_data_strings[of sheet w, where 'n='n] rect i(1)
    by (auto simp: column_at_def list_all_iff rectangular_def)
  then have "filter notna (column_at ?df i) = column_at ?df i"
    by (rule filter_notna_strings)
  with same i(3) have "student_names (spec_normalize P ?df) = Inr (column_at ?df i)"
    by (simp add: student_names_def getitem_def)
  moreover have "getitem ?df col_name = Inr (Series (column_at ?df i))"
    using i(3) by (rule getitem_unique)
  moreover have "length (column_at ?df i) = length (rows ?df)"
    by (simp add: column_at_def)
  ultimately show ?thesis by blast
qed

text \<open>
  Claim C10. The selector drops only missing markers. The cells of a loaded table are
  strings, so when the table has the name column the options of the selector are the whole
  name column, one entry for every row, the empty string included.
\<close>

theorem selector_lists_every_row:
  fixes P :: "pystr \<Rightarrow> 'n option"
  assumes "col_name \<in> set (columns (load_data sheet w :: 'n cell frame))"
  shows "\<exists>df' names.
      normalize_scores P (score_columns (load_data sheet w :: 'n cell frame)) (load_data sheet w) = Inr df'
    \<and> student_names df' = Inr names
    \<and> getitem (load_data sheet w :: 'n cell frame) col_name = Inr (Series names)
    \<and> length names = length (rows (load_data sheet w :: 'n cell frame))"
  using student_names_loaded[OF assms, of P] normalize_loaded[of P sheet w] by blast

lemma blank_row_loaded:
  "(load_data sheet_with_blank_row w :: int cell frame) =
     \<lparr>columns = [col_number, col_name, col_gender, unit1],
      rows = [[Str [], Str [], Str [], Str []],
              [Str [49], Str cheolsu, Str [45224], Str [57, 48]]]\<rparr>"
  by (simp add: sheet_with_blank_row_def example_defs)

theorem selector_lists_every_row_witness:
  "(\<exists>df' names.
      normalize_scores example_parser (score_columns (load_data sheet_with_blank_row [] :: int cell frame))
        (load_data sheet_with_blank_row []) = Inr df'
    \<and> student_names df' = Inr names
    \<and> getitem (load_data sheet_with_blank_row [] :: int cell frame) col_name = Inr (Series names)
    \<and> length names = length (rows (load_data sheet_with_blank_row [] :: int cell frame)))
   \<and> getitem (load_data sheet_with_blank_row [] :: int cell frame) col_name
       = Inr (Series [Str [], Str cheolsu])"
proof
  have "col_name \<in> set (columns (load_data sheet_with_blank_row [] :: int cell frame))"
    by (simp add: blank_row_loaded)
  from selector_lists_every_row[OF this, of example_parser]
  show "\<exists>df' names.
      normalize_scores example_parser (score_columns (load_data sheet_with_blank_row [] :: int cell frame))
        (load_data sheet_with_blank_row []) = Inr df'
    \<and> student_names df' = Inr names
    \<and> getitem (load_data sheet_with_blank_row [] :: int cell frame) col_name = Inr (Series names)
    \<and> length names = length (rows (load_data sheet_with_blank_row [] :: int cell frame))" .
  show "getitem (load_data sheet_with_blank_row [] :: int cell frame) col_name
       = Inr (Series [Str [], Str cheolsu])"
    by (simp add: blank_row_loaded) (simp add: stage_defs)
qed

section \<open>Properties of the Per-Student Reshaper\<close>

lemma find_filter:
  "(case filter Q xs of [] \<Rightarrow> Inl IndexError | x # _ \<Rightarrow> Inr x) =
   (case find Q xs of None \<Rightarrow> Inl IndexError | Some x \<Rightarrow> Inr x)"
  by (induction xs) auto



lemma plot_df_find:
  assumes "student_names df = Inr names" "selected \<in> set names"
    and "set cols \<subseteq> set (columns df)"
  shows "\<exists>r. find (\<lambda>r. row_item df r col_name = selected) (rows df) = Some r \<and>
    plot_df df averages cols selected = Inr (merge_left averages (student_scores df r cols))"
proof -
  from assms(1) obtain i where i: "positions_from 0 col_name (columns df) = [i]"
    and names: "names = filter notna (column_at df i)"
    by (rule student_names_Inr)
  have item: "row_item df r col_name = r ! i" for r
    by (simp add: row_item_def i)
  from assms(2) names obtain r0 where "r0 \<in> set (rows df)" "r0 ! i = selected"
    by (auto simp: column_at_def)
  then have "find (\<lambda>r. r ! i = selected) (rows df) \<noteq> None"
    by (auto simp: find_None_iff)
  then obtain r where r: "find (\<lambda>r. r ! i = selected) (rows df) = Some r" by blast
  have "student_df df selected = Inr (filter (\<lambda>r. r ! i = selected) (rows df))"
    by (simp add: student_df_def getitem_def i column_at_def zip_map_self filter_map o_def)
  moreover have "iloc0 (filter (\<lambda>r. r ! i = selected) (rows df)) = Inr r"
    using find_filter[of "\<lambda>r. r ! i = selected" "rows df"] r by (simp add: iloc0_def)
  moreover have "\<not> list_ex (\<lambda>col. col \<notin> set (columns df)) cols"
    using assms(3) by (auto simp: list_ex_iff)
  ultimately have "plot_df df averages cols selected =
      Inr (merge_left averages (student_scores df r cols))"
    by (simp add: plot_df_def)
  with r show ?thesis by (simp add: item)
qed







section \<open>Properties of the page\<close>

text \<open>On a table the loader returned, no exception escapes the script.\<close>

lemma radio_in_options: "options \<noteq> [] \<Longrightarrow> radio options choice \<in> set options"
  by (simp add: radio_def)

lemma dashboard_loaded_never_crashes:
  fixes P :: "pystr \<Rightarrow> 'n::zero option"
  shows "dashboard P M (load_data sheet w :: 'n cell frame) choice \<noteq> Crash e"
proof -
  let ?df = "load_data sheet w :: 'n cell frame"
  let ?df' = "spec_normalize P ?df"
  show ?thesis
  proof (cases "columns ?df = [] \<or> rows ?df = [] \<or>
      \<not> list_all (\<lambda>col. col \<in> set (columns ?df)) expected_columns")
    case True
    then show ?thesis by (auto simp: dashboard_def)
  next
    case False
    then have "col_name \<in> set (columns ?df)"
      by (simp add: expected_columns_def)
    from student_names_loaded[OF this, of P] obtain names where
      names: "student_names ?df' = Inr names" by blast
    have "distinct (columns ?df)" "rectangular ?df"
      by (rule load_data_distinct, rule load_data_rectangular)
    from overall_averages_normalized[OF this, of M P] obtain averages where
      avg: "overall_averages M ?df' (score_columns ?df) = Inr averages" by blast
    show ?thesis
    proof (cases "names = [] \<or> \<not> truthy (radio names choice)")
      case True
      with False names avg show ?thesis
        by (auto simp: dashboard_def normalize_loaded Let_def)
    next
      case sel: False
      then have "radio names choice \<in> set names" by (simp add: radio_in_options)
      moreover have "set (score_columns ?df) \<subseteq> set (columns ?df')"
        using score_columns_subset[of ?df] by simp
      ultimately obtain p where
        "plot_df ?df' averages (score_columns ?df) (radio names choice) = Inr p"
        using plot_df_find[OF names, of "radio names choice" "score_columns ?df" averages] by blast
      with False sel names avg show ?thesis
        by (auto simp: dashboard_def normalize_loaded Let_def)
    qed
  qed
qed

text \<open>
  Claim C6, as the code has it. A table with at least one column and one row that lacks
  an identity column ends the run in the schema error: the message prints the three
  expected labels, the missing ones among them, the table shown is the loaded one, and
  the outcome is the same for every parser and mean, so nothing was coerced.
\<close>

theorem schema_error_on_missing_identity_column:
  assumes "columns df \<noteq> []" and "rows df \<noteq> []"
    and "\<not> list_all (\<lambda>col. col \<in> set (columns df)) expected_columns"
  shows "dashboard P M df choice = SchemaError expected_columns df"
  using assms by (simp add: dashboard_def)

lemma no_gender_loaded:
  "(load_data sheet_no_gender w :: int cell frame) =
     \<lparr>columns = [col_number, col_name, unit1], rows = [[Str [49], Str cheolsu, Str [57, 48]]]\<rparr>"
  by (simp add: sheet_no_gender_def example_defs)

theorem schema_error_on_missing_identity_column_witness:
  "dashboard example_parser example_mean (load_data sheet_no_gender [] :: int cell frame) 0
     = SchemaError expected_columns (load_data sheet_no_gender [])"
proof (rule schema_error_on_missing_identity_column)
  show "columns (load_data sheet_no_gender [] :: int cell frame) \<noteq> []"
    by (simp add: no_gender_loaded)
  show "rows (load_data sheet_no_gender [] :: int cell frame) \<noteq> []"
    by (simp add: no_gender_loaded)
  show "\<not> list_all (\<lambda>col. col \<in> set (columns (load_data sheet_no_gender [] :: int cell frame)))
          expected_columns"
    by (simp add: no_gender_loaded) (simp add: stage_defs)
qed

text \<open>
  Claim C6 as stated covers every loaded table. A worksheet with a header and no data row
  lacks the gender column too, but its table is empty and the run ends earlier, in the
  notice that no data was found: no schema error, no table shown.
\<close>

theorem header_only_sheet_shows_no_schema_error:
  "\<not> list_all (\<lambda>col. col \<in> set (columns (load_data sheet_header_only [] :: int cell frame)))
        expected_columns
   \<and> dashboard example_parser example_mean (load_data sheet_header_only []) 0 = NoData"
  by (simp add: sheet_header_only_def example_defs)

end
